theory Spec2Isabelle
  imports Main "HOL-Library.Sublist"
begin

section \<open>The req package: a configurable HTTP request wrapper\<close>

text \<open>
  A shallow embedding of package \<open>req\<close> (274 lines of Go). Go strings and byte slices are
  \<open>string\<close> (lists of 8-bit characters); Go's \<open>int\<close>, \<open>int64\<close> and \<open>time.Duration\<close> are
  \<open>int\<close>: the package compares them and subtracts one from an offset, and where that
  subtraction could wrap the result is out of range on both sides (see \<open>SyntaxError_Error\<close>).
  A Go call that can panic returns a \<open>completion\<close>; a Go \<open>(value, error)\<close> pair in which
  exactly one side is meaningful is a sum, \<open>Inl\<close> the error.

  The package calls into the Go standard library (net/http, net/url, encoding/json,
  net/http/httputil, strings). What those calls compute is not part of the package: it is
  taken as the fields of a record \<open>env\<close>, one field per library function, and every
  theorem holds for every such environment. What the package itself relies on about them
  (the shape of a fresh request, how a response dump treats the body stream) is written
  out below, next to each definition.
\<close>

subsection \<open>Characters of the Go string literals\<close>

abbreviation NL :: char where "NL \<equiv> CHR 0x0A"
abbreviation CR :: char where "CR \<equiv> CHR 0x0D"
abbreviation SQ :: char where "SQ \<equiv> CHR 0x27"
abbreviation DQ :: char where "DQ \<equiv> CHR 0x22"
abbreviation BSL :: char where "BSL \<equiv> CHR 0x5C"
abbreviation BQ :: char where "BQ \<equiv> CHR 0x60"

subsection \<open>Constants\<close>

definition JSONContentType :: string where
  "JSONContentType = ''application/json''"

definition URLEncodededContentType :: string where
  "URLEncodededContentType = ''application/x-www-form-urlencoded''"

text \<open>The constants of net/http that the package names.\<close>

definition StatusOK :: int where "StatusOK = 200"
definition StatusIMUsed :: int where "StatusIMUsed = 226"

definition MethodGet :: string where "MethodGet = ''GET''"
definition MethodHead :: string where "MethodHead = ''HEAD''"
definition MethodPost :: string where "MethodPost = ''POST''"
definition MethodDelete :: string where "MethodDelete = ''DELETE''"

text \<open>\<open>time.Second\<close>, in nanoseconds.\<close>

definition Second :: int where "Second = 1000000000"

subsection \<open>Errors and completions\<close>

text \<open>\<open>*json.SyntaxError\<close>: the decoder's message and the offset it reports.\<close>

record json_SyntaxError =
  msg :: string
  Offset :: int

text \<open>\<open>type SyntaxError struct { *json.SyntaxError; input []byte }\<close>\<close>

record SyntaxError =
  embedded :: json_SyntaxError
  input :: string

text \<open>
  The dynamic types an \<open>error\<close> value has in this package: \<open>*json.SyntaxError\<close> (the one
  type \<open>Unmarshal\<close> asserts), the package's own \<open>SyntaxError\<close>, and every other error
  (\<open>errors.New\<close>, \<open>fmt.Errorf\<close>, what a reader, the transport or the decoder reports),
  identified by its text.
\<close>

datatype error =
    Err string
  | JSONSyntaxErr json_SyntaxError
  | JSONUnmarshalTypeErr string
  | SyntaxErr SyntaxError

datatype 'a completion = Panics | Returns 'a

subsection \<open>Byte streams\<close>

text \<open>
  An \<open>io.Reader\<close> that may fail, such as a response body, is the script of what its
  future reads deliver: bytes, or an error other than \<open>io.EOF\<close>; the end of the script is
  \<open>io.EOF\<close>. \<open>ioutil.ReadAll\<close> reads up to the end or to the first error and returns the
  bytes read so far and that error; the third component is the stream left behind.
\<close>

datatype read_event = Bytes string | ReadErr error

type_synonym reader = "read_event list"

fun ReadAll :: "reader \<Rightarrow> string \<times> error option \<times> reader" where
  "ReadAll [] = ([], None, [])"
| "ReadAll (Bytes b # r) = (case ReadAll r of (bs, e, r') \<Rightarrow> (b @ bs, e, r'))"
| "ReadAll (ReadErr e # r) = ([], Some e, r)"

text \<open>\<open>bytes.NewReader(b)\<close>: an in-memory stream that delivers \<open>b\<close> and never fails.\<close>

definition bytes_NewReader :: "string \<Rightarrow> reader" where
  "bytes_NewReader b = [Bytes b]"

text \<open>
  The request body is a \<open>*strings.Reader\<close> behind an \<open>io.TeeReader\<close>. The state of the tee
  is the unread rest of the source and the capture buffer. One \<open>Read\<close> into a slice of
  length \<open>n\<close> takes up to \<open>n\<close> bytes from the source, appends them to the buffer
  (\<open>bytes.Buffer.Write\<close> does not fail) and hands them to the caller.
\<close>

fun tee_Read :: "string \<times> string \<Rightarrow> nat \<Rightarrow> string \<times> (string \<times> string)" where
  "tee_Read (src, buf) n = (take n src, (drop n src, buf @ take n src))"

text \<open>
  The transport reads the body by a sequence of such calls, given by the lengths of its
  slices; the result is all it was handed, and the state of the tee afterwards.
\<close>

fun tee_reads :: "string \<times> string \<Rightarrow> nat list \<Rightarrow> string \<times> (string \<times> string)" where
  "tee_reads st [] = ([], st)"
| "tee_reads st (n # ns) =
     (case tee_Read st n of (p, st') \<Rightarrow>
        (case tee_reads st' ns of (ps, st'') \<Rightarrow> (p @ ps, st'')))"

subsection \<open>Requests, responses and the library environment\<close>

type_synonym header = "(string \<times> string list) list"

text \<open>
  \<open>http.Request\<close> as the package uses it. \<open>URL\<close> is the parsed URL, held as what
  \<open>URL.String()\<close> renders. \<open>Body\<close> is the source the transport will read (through the tee);
  \<open>None\<close> is a nil body. \<open>http.Header\<close> is a Go map; it is an association list here, and
  the package puts at most one key in it, so the order of a \<open>range\<close> over it is not at stake.
\<close>

record http_request =
  Method :: string
  URL :: string
  Header :: header
  Body :: "string option"

record http_response =
  StatusCode :: int
  Status :: string
  Proto :: string
  RespHeader :: header
  RespBody :: reader

text \<open>
  \<open>http.Client\<close>: the two fields the package sets. A nil \<open>CheckRedirect\<close> is \<open>None\<close>; a hook
  returns \<open>None\<close> for a nil error.
\<close>

record http_client =
  Timeout :: int
  CheckRedirect :: "(http_request \<Rightarrow> http_request list \<Rightarrow> error option) option"

text \<open>
  What one \<open>client.Do\<close> did: the lengths of the reads it made on the request body before
  it returned, and its result. When Go returns an error together with a response (a refused
  redirect), the package looks at the error only, so the result is a sum.
\<close>

record do_outcome =
  reads :: "nat list"
  result :: "error + http_response"

type_synonym url_Values = "string \<rightharpoonup> string list"

text \<open>
  The standard library, as parameters:
  \<^item> \<open>url_Parse\<close>: \<open>url.Parse\<close>, as \<open>http.NewRequest\<close> calls it;
  \<^item> \<open>values_Encode\<close>: \<open>url.Values.Encode\<close>;
  \<^item> \<open>client_Do\<close>: \<open>(*http.Client).Do\<close>;
  \<^item> \<open>Response_Write\<close>: \<open>(*http.Response).Write\<close> into a buffer, as
    \<open>httputil.DumpResponse\<close> calls it: the wire form of the response, or an error;
  \<^item> \<open>json_Indent\<close>: \<open>json.Indent(&out, src, prefix, indent)\<close>: what it wrote to \<open>out\<close>,
    and its error;
  \<^item> \<open>strings_TrimSpace\<close>: \<open>strings.TrimSpace\<close>.
\<close>

record env =
  url_Parse :: "string \<Rightarrow> error + string"
  values_Encode :: "url_Values \<Rightarrow> string"
  client_Do :: "http_client \<Rightarrow> http_request \<Rightarrow> do_outcome"
  Response_Write :: "http_response \<Rightarrow> error + string"
  json_Indent :: "string \<Rightarrow> string \<Rightarrow> string \<Rightarrow> string \<times> error option"
  strings_TrimSpace :: "string \<Rightarrow> string"

subsection \<open>Request configuration\<close>

record Request =
  curl :: bool
  curlHeader :: bool
  timeout :: int
  skipRedirects :: bool

type_synonym RequestFunc = "Request \<Rightarrow> Request"

definition New :: "RequestFunc list \<Rightarrow> Request" where
  "New options =
     foldl (\<lambda>r opt. opt r)
       \<lparr>curl = False, curlHeader = False, timeout = 30 * Second, skipRedirects = False\<rparr>
       options"

definition Curl :: "bool \<Rightarrow> RequestFunc" where
  "Curl b = (\<lambda>r. r\<lparr>curl := b\<rparr>)"

definition CurlHeader :: "bool \<Rightarrow> RequestFunc" where
  "CurlHeader b = (\<lambda>r. r\<lparr>curlHeader := b\<rparr>)"

text \<open>The option \<open>Timeout\<close>; the name without suffix is the field of \<open>http.Client\<close>.\<close>

definition Timeout_opt :: "int \<Rightarrow> RequestFunc" where
  "Timeout_opt d = (\<lambda>r. r\<lparr>timeout := d\<rparr>)"

definition SkipRedirects :: "bool \<Rightarrow> RequestFunc" where
  "SkipRedirects b = (\<lambda>r. r\<lparr>skipRedirects := b\<rparr>)"

subsection \<open>IsSuccess\<close>

definition IsSuccess :: "int \<Rightarrow> bool" where
  "IsSuccess statusCode \<longleftrightarrow> statusCode \<ge> StatusOK \<and> statusCode \<le> StatusIMUsed"

subsection \<open>SyntaxError.Error and Unmarshal\<close>

text \<open>
  \<open>fmt.Sprintf("syntax error near: `%s`", string(e.input[e.Offset-1:]))\<close>. The slice
  expression panics unless \<open>0 \<le> Offset - 1 \<le> len(input)\<close>. (In Go the offset is an
  \<open>int64\<close>; at the least \<open>int64\<close> the subtraction wraps to the greatest one, which is out
  of range as well.)
\<close>

definition SyntaxError_Error :: "SyntaxError \<Rightarrow> string completion" where
  "SyntaxError_Error e =
     (let i = Offset (embedded e) - 1 in
      if 0 \<le> i \<and> i \<le> int (length (input e))
      then Returns (''syntax error near: '' @ [BQ] @ drop (nat i) (input e) @ [BQ])
      else Panics)"

text \<open>
  \<open>Unmarshal\<close>, with \<open>json.Unmarshal\<close> as the parameter \<open>dec\<close>: from the bytes and the
  target it gives the decoder's error and the target as the decoder left it. The result is
  the error that \<open>Unmarshal\<close> returns (\<open>None\<close> for nil) and the target.
\<close>

definition Unmarshal ::
  "(string \<Rightarrow> 'v \<Rightarrow> error option \<times> 'v) \<Rightarrow> reader \<Rightarrow> 'v \<Rightarrow> error option \<times> 'v" where
  "Unmarshal dec body v =
     (case ReadAll body of
        (data, Some err, _) \<Rightarrow> (Some err, v)
      | (data, None, _) \<Rightarrow>
          (case dec data v of
             (Some (JSONSyntaxErr e), v') \<Rightarrow> (Some (SyntaxErr \<lparr>embedded = e, input = data\<rparr>), v')
           | (err, v') \<Rightarrow> (err, v')))"

subsection \<open>Building the request\<close>

text \<open>
  \<open>http.NewRequest(method, url, body)\<close>, as far as the package depends on it: an empty
  method means GET, a method that is not a token is refused, then the URL is parsed; the
  fresh request has an empty header and the body it was given. (The text of the
  invalid-method error is Go's, without the quoted method.)
\<close>

definition isTokenByte :: "char \<Rightarrow> bool" where
  "isTokenByte c \<longleftrightarrow>
     c \<in> set ''ABCDEFGHIJKLMNOPQRSTUVWXYZabcdefghijklmnopqrstuvwxyz0123456789''
   \<or> c \<in> set ''!#$%&*+-.^_|~'' \<or> c = SQ \<or> c = BQ"

definition validMethod :: "string \<Rightarrow> bool" where
  "validMethod method \<longleftrightarrow> method \<noteq> [] \<and> list_all isTokenByte method"

definition NewRequest :: "env \<Rightarrow> string \<Rightarrow> string \<Rightarrow> string option \<Rightarrow> error + http_request" where
  "NewRequest env method url body =
     (let method = (if method = [] then ''GET'' else method) in
      if \<not> validMethod method then Inl (Err ''net/http: invalid method'')
      else
        (case url_Parse env url of
           Inl err \<Rightarrow> Inl err
         | Inr u \<Rightarrow> Inr \<lparr>Method = method, URL = u, Header = [], Body = body\<rparr>))"

text \<open>
  \<open>Header.Set(key, value)\<close> replaces the values of the key by the one value. (Go first
  puts the key in canonical form; the one key the package sets, \<open>Content-Type\<close>, is in
  that form already.)
\<close>

fun Header_Set :: "header \<Rightarrow> string \<Rightarrow> string \<Rightarrow> header" where
  "Header_Set [] k v = [(k, [v])]"
| "Header_Set ((k', vs) # h) k v =
     (if k' = k then (k, [v]) # h else (k', vs) # Header_Set h k v)"

subsection \<open>Formatting\<close>

text \<open>The verb \<open>%d\<close> of package fmt on an \<open>int\<close>: decimal digits, a minus sign if negative.\<close>

fun digits :: "nat \<Rightarrow> string" where
  "digits n =
     (if n < 10 then [''0123456789'' ! n]
      else digits (n div 10) @ [''0123456789'' ! (n mod 10)])"

declare digits.simps [simp del]

definition FormatInt :: "int \<Rightarrow> string" where
  "FormatInt i = (if i < 0 then ''-'' @ digits (nat (- i)) else digits (nat i))"

text \<open>
  \<open>fmt.Errorf("Error making HTTP request.  HTTP Status %d: %v", resp.StatusCode, string(body))\<close>
\<close>

definition status_error :: "int \<Rightarrow> string \<Rightarrow> error" where
  "status_error code body =
     Err (''Error making HTTP request.  HTTP Status '' @ FormatInt code @ '': '' @ body)"

subsection \<open>The trace formatter\<close>

text \<open>\<open>bytes.Index\<close>: the first position at which \<open>sep\<close> starts, if any.\<close>

fun bytes_Index :: "string \<Rightarrow> string \<Rightarrow> nat option" where
  "bytes_Index [] sep = (if sep = [] then Some 0 else None)"
| "bytes_Index (x # xs) sep =
     (if prefix sep (x # xs) then Some 0 else map_option Suc (bytes_Index xs sep))"

text \<open>\<open>bytes.SplitN(dump, []byte("\r\n\r\n"), 2)\<close>: two parts, cut at the first
  separator, or the one part if there is no separator.\<close>

definition SplitN_CRLFCRLF_2 :: "string \<Rightarrow> string list" where
  "SplitN_CRLFCRLF_2 s =
     (case bytes_Index s [CR, NL, CR, NL] of
        None \<Rightarrow> [s]
      | Some m \<Rightarrow> [take m s, drop (m + 4) s])"

text \<open>
  \<open>httputil.DumpResponse(resp, true)\<close>, as far as the package depends on it. The dump
  drains the body stream. If that read fails, the dump fails with the read error and the
  response keeps the stream, as far as it was read. Otherwise the response gets an
  in-memory copy of the bytes as its body, and the dump is what \<open>Response.Write\<close> renders
  of the response with those bytes, or its error. (Closing the drained stream is taken to
  succeed.)
\<close>

definition DumpResponse :: "env \<Rightarrow> http_response \<Rightarrow> (error + string) \<times> http_response" where
  "DumpResponse env resp =
     (case ReadAll (RespBody resp) of
        (b, Some err, rest) \<Rightarrow> (Inl err, resp\<lparr>RespBody := rest\<rparr>)
      | (b, None, rest) \<Rightarrow>
          (Response_Write env (resp\<lparr>RespBody := bytes_NewReader b\<rparr>),
           resp\<lparr>RespBody := bytes_NewReader b\<rparr>))"

definition indentJSON :: "env \<Rightarrow> string \<Rightarrow> string \<times> error option" where
  "indentJSON env b = json_Indent env b '''' ''   ''"

text \<open>
  The loop \<open>for n, v := range r.Header\<close>: one clause per header name, with the first
  value; \<open>v[0]\<close> panics on an empty list of values.
\<close>

fun header_clauses :: "header \<Rightarrow> string \<Rightarrow> string completion" where
  "header_clauses [] buf = Returns buf"
| "header_clauses ((n, v) # hs) buf =
     (case v of
        [] \<Rightarrow> Panics
      | v0 # _ \<Rightarrow>
          header_clauses hs
            (buf @ replicate 4 CHR '' '' @ ''-H'' @ [SQ] @ n @ '': '' @ v0 @ [SQ, CHR '' '', BSL, NL]))"

text \<open>
  \<open>logger(r, resp, data)\<close>. \<open>data\<close> is the capture buffer, never nil, and reading a
  \<open>bytes.Buffer\<close> to its end does not fail, so \<open>b\<close> is its content. The result is the list
  of records handed to \<open>log.Println\<close> (none or one; the record is \<open>buf.String()\<close>) and the
  response as the dump left it.
\<close>

definition logger ::
  "env \<Rightarrow> Request \<Rightarrow> http_request \<Rightarrow> http_response \<Rightarrow> string
     \<Rightarrow> (string list \<times> http_response) completion" where
  "logger env c r resp data =
     (if \<not> curl c \<and> \<not> curlHeader c then Returns ([], resp)
      else
        let indent = replicate 4 CHR '' '';
            buf = NL # ''curl -sS'';
            buf = (if skipRedirects c then buf @ '' -L'' else buf);
            buf = buf @ '' -X'';
            buf = buf @ Method r;
            buf = buf @ [CHR '' '', BSL, NL]
        in
          (case header_clauses (Header r) buf of
             Panics \<Rightarrow> Panics
           | Returns buf \<Rightarrow>
               let buf = (if data \<noteq> []
                          then buf @ indent @ ''-d'' @ [SQ] @ strings_TrimSpace env data
                                 @ [SQ, CHR '' '', BSL, NL]
                          else buf);
                   buf = buf @ indent @ [DQ] @ URL r @ [DQ];
                   (dump, resp') = DumpResponse env resp;
                   buf =
                     (case dump of
                        Inl err \<Rightarrow> buf
                      | Inr d \<Rightarrow>
                          (case SplitN_CRLFCRLF_2 d of
                             [header, body] \<Rightarrow>
                               let buf = buf @ [NL, NL];
                                   buf = (if curlHeader c then buf @ header @ [NL, NL]
                                          else buf @ Proto resp' @ '' '' @ Status resp' @ [NL]);
                                   buf = (case indentJSON env body of
                                            (json, Some err) \<Rightarrow> buf @ body
                                          | (json, None) \<Rightarrow> buf @ json)
                               in buf @ [NL]
                           | _ \<Rightarrow> buf))
               in Returns ([buf], resp')))"

subsection \<open>The request executor\<close>

text \<open>
  What one call of \<open>request\<close> does: the call \<open>client.Do(req)\<close> it made, if it made one;
  the bytes the transport was handed from the request body; the capture buffer after
  \<open>client.Do\<close>; the records it logged; and what it returned, \<open>Inl err\<close> for \<open>(nil, err)\<close>
  and \<open>Inr resp\<close> for \<open>(resp, nil)\<close>.
\<close>

record outcome =
  sent :: "(http_client \<times> http_request) option"
  delivered :: string
  captured :: string
  logged :: "string list"
  ret :: "(error + http_response) completion"

definition request ::
  "env \<Rightarrow> Request \<Rightarrow> string \<Rightarrow> string \<Rightarrow> string \<Rightarrow> string option \<Rightarrow> outcome" where
  "request env c method url contentType data =
     (case NewRequest env method url data of
        Inl err \<Rightarrow>
          \<lparr>sent = None, delivered = [], captured = [], logged = [], ret = Returns (Inl err)\<rparr>
      | Inr req0 \<Rightarrow>
          let req = (if contentType \<noteq> []
                     then req0\<lparr>Header := Header_Set (Header req0) ''Content-Type'' contentType\<rparr>
                     else req0);
              client = \<lparr>Timeout = timeout c,
                        CheckRedirect =
                          (if skipRedirects c then Some (\<lambda>req via. Some (Err ''Skip redirects''))
                           else None)\<rparr>;
              out = client_Do env client req;
              (dl, buf) = (case data of
                             None \<Rightarrow> ([], [])
                           | Some d \<Rightarrow> (case tee_reads (d, []) (reads out) of
                                          (p, (rest, b)) \<Rightarrow> (p, b)))
          in
            (case result out of
               Inl err \<Rightarrow>
                 \<lparr>sent = Some (client, req), delivered = dl, captured = buf, logged = [],
                  ret = Returns (Inl err)\<rparr>
             | Inr resp \<Rightarrow>
                 (case (if curl c \<or> curlHeader c then logger env c req resp buf
                        else Returns ([], resp)) of
                    Panics \<Rightarrow>
                      \<lparr>sent = Some (client, req), delivered = dl, captured = buf, logged = [],
                       ret = Panics\<rparr>
                  | Returns (lg, resp) \<Rightarrow>
                      if StatusCode resp \<ge> StatusOK \<and> StatusCode resp \<le> StatusIMUsed
                      then \<lparr>sent = Some (client, req), delivered = dl, captured = buf,
                            logged = lg, ret = Returns (Inr resp)\<rparr>
                      else
                        (case ReadAll (RespBody resp) of
                           (body, Some err, _) \<Rightarrow>
                             \<lparr>sent = Some (client, req), delivered = dl, captured = buf,
                              logged = lg, ret = Returns (Inl err)\<rparr>
                         | (body, None, _) \<Rightarrow>
                             \<lparr>sent = Some (client, req), delivered = dl, captured = buf,
                              logged = lg,
                              ret = Returns (Inl (status_error (StatusCode resp) body))\<rparr>))))"

definition Get :: "env \<Rightarrow> Request \<Rightarrow> string \<Rightarrow> outcome" where
  "Get env c url = request env c MethodGet url '''' None"

definition Head :: "env \<Rightarrow> Request \<Rightarrow> string \<Rightarrow> outcome" where
  "Head env c url = request env c MethodHead url '''' None"

definition Delete :: "env \<Rightarrow> Request \<Rightarrow> string \<Rightarrow> outcome" where
  "Delete env c url = request env c MethodDelete url '''' None"

definition Post :: "env \<Rightarrow> Request \<Rightarrow> string \<Rightarrow> url_Values \<Rightarrow> outcome" where
  "Post env c url values =
     request env c MethodPost url URLEncodededContentType (Some (values_Encode env values))"

definition Put :: "env \<Rightarrow> Request \<Rightarrow> string \<Rightarrow> url_Values \<Rightarrow> outcome" where
  "Put env c url values =
     request env c MethodPost url URLEncodededContentType (Some (values_Encode env values))"

subsection \<open>Names for the parts of a call of \<open>request\<close>\<close>

text \<open>
  The client that \<open>request\<close> builds from the configuration, the request it hands to
  \<open>client.Do\<close> (the fresh request, with the content type set if there is one), and what
  the tee gives for the reads of the transport: the bytes handed over and the capture
  buffer. These are the subterms of \<open>request\<close> under a name, for stating lemmas.
\<close>

definition the_client :: "Request \<Rightarrow> http_client" where
  "the_client c =
     \<lparr>Timeout = timeout c,
      CheckRedirect =
        (if skipRedirects c then Some (\<lambda>req via. Some (Err ''Skip redirects'')) else None)\<rparr>"

definition the_req :: "string \<Rightarrow> http_request \<Rightarrow> http_request" where
  "the_req ct req0 =
     (if ct \<noteq> [] then req0\<lparr>Header := Header_Set (Header req0) ''Content-Type'' ct\<rparr>
      else req0)"

definition the_tee :: "string option \<Rightarrow> nat list \<Rightarrow> string \<times> string" where
  "the_tee d ns =
     (case d of
        None \<Rightarrow> ([], [])
      | Some d \<Rightarrow> (case tee_reads (d, []) ns of (p, (rest, b)) \<Rightarrow> (p, b)))"

subsection \<open>A concrete environment, for the examples\<close>

text \<open>
  A transport that reads the request body in two slices of 4096 bytes and answers with a
  given response; a URL parser that accepts every URL as it is; the encoding of the form
  \<open>{a: 1, b: 2}\<close>; a response writer that renders the status line and the body, with no
  header lines; the indenter on the one document \<open>{"x":1}\<close>, refusing everything else; a
  trimmer for strings that have no space at their ends.
\<close>

definition example_response :: "int \<Rightarrow> string \<Rightarrow> reader \<Rightarrow> http_response" where
  "example_response code status body =
     \<lparr>StatusCode = code, Status = status, Proto = ''HTTP/1.1'', RespHeader = [], RespBody = body\<rparr>"

definition example_json :: string where
  "example_json = ''{'' @ [DQ] @ ''x'' @ [DQ] @ '':1}''"

definition example_env :: "http_response \<Rightarrow> env" where
  "example_env resp =
     \<lparr>url_Parse = Inr,
      values_Encode = (\<lambda>vs. ''a=1&b=2''),
      client_Do = (\<lambda>cl req. \<lparr>reads = [4096, 4096], result = Inr resp\<rparr>),
      Response_Write =
        (\<lambda>r. Inr (Proto r @ '' '' @ Status r @ [CR, NL, CR, NL] @ fst (ReadAll (RespBody r)))),
      json_Indent =
        (\<lambda>src pre ind.
           if src = example_json
           then (''{'' @ [NL] @ pre @ ind @ [DQ] @ ''x'' @ [DQ] @ '': 1'' @ [NL] @ pre @ ''}'', None)
           else ([], Some (Err ''invalid character''))),
      strings_TrimSpace = (\<lambda>s. s)\<rparr>"

definition example_request :: http_request where
  "example_request = \<lparr>Method = ''GET'', URL = ''http://h/x'', Header = [], Body = None\<rparr>"

definition response_200 :: http_response where
  "response_200 = example_response 200 ''200 OK'' [Bytes example_json]"

definition response_404 :: http_response where
  "response_404 = example_response 404 ''404 Not Found'' [Bytes ''not found'']"

definition response_500 :: http_response where
  "response_500 =
     example_response 500 ''500 Internal Server Error''
       [Bytes ''par'', ReadErr (Err ''unexpected EOF''), ReadErr (Err ''unexpected EOF'')]"

definition example_values :: url_Values where
  "example_values = [''a'' \<mapsto> [''1''], ''b'' \<mapsto> [''2'']]"

text \<open>A decoder into a number, on three documents.\<close>

definition example_decoder :: "string \<Rightarrow> nat \<Rightarrow> error option \<times> nat" where
  "example_decoder data v =
     (if data = ''{]'' then (Some (JSONSyntaxErr \<lparr>msg = ''invalid character'', Offset = 2\<rparr>), v)
      else if data = ''{}'' then (Some (JSONUnmarshalTypeErr ''cannot unmarshal object''), v)
      else (None, length data))"

section \<open>Properties\<close>

subsection \<open>Lemmas about the model\<close>

lemma ReadAll_bytes_NewReader: "ReadAll (bytes_NewReader b) = (b, None, [])"
  by (simp add: bytes_NewReader_def)

lemma header_clauses_Returns:
  "\<forall>(n, v) \<in> set h. v \<noteq> [] \<Longrightarrow> \<exists>b. header_clauses h buf = Returns (buf @ b)"
proof (induction h arbitrary: buf)
  case Nil
  then show ?case by simp
next
  case (Cons a h)
  obtain n v where a: "a = (n, v)" by (cases a)
  with Cons.prems obtain v0 vs where v: "v = v0 # vs" by (cases v) auto
  from Cons.prems have "\<forall>(n, v) \<in> set h. v \<noteq> []" by simp
  from Cons.IH[OF this] obtain b where
    "header_clauses h (buf @ replicate 4 CHR '' '' @ ''-H'' @ [SQ] @ n @ '': '' @ v0 @ [SQ, CHR '' '', BSL, NL])
      = Returns ((buf @ replicate 4 CHR '' '' @ ''-H'' @ [SQ] @ n @ '': '' @ v0 @ [SQ, CHR '' '', BSL, NL]) @ b)"
    by blast
  then show ?case using a v by simp
qed

lemma DumpResponse_StatusCode: "StatusCode (snd (DumpResponse env resp)) = StatusCode resp"
  by (simp add: DumpResponse_def split: prod.splits option.splits)

lemma DumpResponse_drained:
  "ReadAll (RespBody resp) = (body, None, rest) \<Longrightarrow>
     RespBody (snd (DumpResponse env resp)) = bytes_NewReader body"
  by (simp add: DumpResponse_def)

lemma logger_off: "\<not> curl c \<Longrightarrow> \<not> curlHeader c \<Longrightarrow> logger env c r resp data = Returns ([], resp)"
  by (simp add: logger_def)

lemma logger_on:
  assumes "curl c \<or> curlHeader c" and "\<forall>(n, v) \<in> set (Header r). v \<noteq> []"
  shows "\<exists>rec. logger env c r resp data = Returns ([rec], snd (DumpResponse env resp))
    \<and> prefix (NL # ''curl -sS'' @ (if skipRedirects c then '' -L'' else []) @ '' -X'' @ Method r @ [CHR '' '', BSL, NL]) rec"
proof -
  let ?h = "NL # ''curl -sS'' @ (if skipRedirects c then '' -L'' else []) @ '' -X'' @ Method r @ [CHR '' '', BSL, NL]"
  from header_clauses_Returns[OF assms(2), of ?h] obtain b where
    b: "header_clauses (Header r) ?h = Returns (?h @ b)" by blast
  show ?thesis
    using assms(1) b
    by (auto simp: logger_def Let_def prefix_def split: prod.splits sum.splits list.splits option.splits)
qed

lemma NewRequest_Inr:
  "NewRequest env m u d = Inr req0 \<Longrightarrow>
     validMethod (if m = [] then ''GET'' else m) \<and>
     (\<exists>u'. url_Parse env u = Inr u' \<and>
        req0 = \<lparr>Method = (if m = [] then ''GET'' else m), URL = u', Header = [], Body = d\<rparr>)"
  by (auto simp: NewRequest_def Let_def split: if_splits sum.splits)

lemma request_refused:
  "NewRequest env m u d = Inl err \<Longrightarrow>
     request env c m u ct d =
       \<lparr>sent = None, delivered = [], captured = [], logged = [], ret = Returns (Inl err)\<rparr>"
  by (simp add: request_def)

lemma request_transport_error:
  assumes "NewRequest env m u d = Inr req0"
    and "result (client_Do env (the_client c) (the_req ct req0)) = Inl err"
  shows "request env c m u ct d =
      \<lparr>sent = Some (the_client c, the_req ct req0),
       delivered = fst (the_tee d (reads (client_Do env (the_client c) (the_req ct req0)))),
       captured = snd (the_tee d (reads (client_Do env (the_client c) (the_req ct req0)))),
       logged = [], ret = Returns (Inl err)\<rparr>"
  using assms
  unfolding request_def Let_def the_client_def the_req_def the_tee_def split_beta
  by (simp split del: if_split)

lemma the_req_header_ok:
  "NewRequest env m u d = Inr req0 \<Longrightarrow> \<forall>(n, v) \<in> set (Header (the_req ct req0)). v \<noteq> []"
  by (drule NewRequest_Inr) (auto simp: the_req_def)

lemma request_response:
  assumes nr: "NewRequest env m u d = Inr req0"
    and res: "result (client_Do env (the_client c) (the_req ct req0)) = Inr resp"
  shows "\<exists>lg. request env c m u ct d =
     (if StatusCode resp \<ge> StatusOK \<and> StatusCode resp \<le> StatusIMUsed
      then \<lparr>sent = Some (the_client c, the_req ct req0),
            delivered = fst (the_tee d (reads (client_Do env (the_client c) (the_req ct req0)))),
            captured = snd (the_tee d (reads (client_Do env (the_client c) (the_req ct req0)))),
            logged = lg,
            ret = Returns (Inr (if curl c \<or> curlHeader c then snd (DumpResponse env resp) else resp))\<rparr>
      else
        \<lparr>sent = Some (the_client c, the_req ct req0),
         delivered = fst (the_tee d (reads (client_Do env (the_client c) (the_req ct req0)))),
         captured = snd (the_tee d (reads (client_Do env (the_client c) (the_req ct req0)))),
         logged = lg,
         ret = (case ReadAll (RespBody (if curl c \<or> curlHeader c then snd (DumpResponse env resp) else resp)) of
                  (body, Some err, rest) \<Rightarrow> Returns (Inl err)
                | (body, None, rest) \<Rightarrow> Returns (Inl (status_error (StatusCode resp) body)))\<rparr>)"
proof -
  let ?X = "the_tee d (reads (client_Do env (the_client c) (the_req ct req0)))"
  let ?L = "if curl c \<or> curlHeader c then logger env c (the_req ct req0) resp (snd ?X)
            else Returns ([], resp)"
  let ?resp' = "if curl c \<or> curlHeader c then snd (DumpResponse env resp) else resp"
  have "\<exists>lg. ?L = Returns (lg, ?resp')"
  proof (cases "curl c \<or> curlHeader c")
    case True
    from logger_on[OF True the_req_header_ok[OF nr], of env ct resp "snd ?X"] True
    show ?thesis by auto
  next
    case False
    then show ?thesis by simp
  qed
  then obtain lg where lg: "?L = Returns (lg, ?resp')" ..
  have sc: "StatusCode ?resp' = StatusCode resp"
    by (simp add: DumpResponse_StatusCode)
  have "request env c m u ct d =
     (case ?L of
        Panics \<Rightarrow> \<lparr>sent = Some (the_client c, the_req ct req0), delivered = fst ?X, captured = snd ?X,
                    logged = [], ret = Panics\<rparr>
      | Returns (lg, resp) \<Rightarrow>
          if StatusCode resp \<ge> StatusOK \<and> StatusCode resp \<le> StatusIMUsed
          then \<lparr>sent = Some (the_client c, the_req ct req0), delivered = fst ?X, captured = snd ?X,
                logged = lg, ret = Returns (Inr resp)\<rparr>
          else
            (case ReadAll (RespBody resp) of
               (body, Some err, _) \<Rightarrow>
                 \<lparr>sent = Some (the_client c, the_req ct req0), delivered = fst ?X, captured = snd ?X,
                  logged = lg, ret = Returns (Inl err)\<rparr>
             | (body, None, _) \<Rightarrow>
                 \<lparr>sent = Some (the_client c, the_req ct req0), delivered = fst ?X, captured = snd ?X,
                  logged = lg,
                  ret = Returns (Inl (status_error (StatusCode resp) body))\<rparr>))"
    using nr res
    unfolding request_def Let_def the_client_def the_req_def the_tee_def split_beta
    by (simp split del: if_split)
  then have "request env c m u ct d =
          (if StatusCode ?resp' \<ge> StatusOK \<and> StatusCode ?resp' \<le> StatusIMUsed
          then \<lparr>sent = Some (the_client c, the_req ct req0), delivered = fst ?X, captured = snd ?X,
                logged = lg, ret = Returns (Inr ?resp')\<rparr>
          else
            (case ReadAll (RespBody ?resp') of
               (body, Some err, _) \<Rightarrow>
                 \<lparr>sent = Some (the_client c, the_req ct req0), delivered = fst ?X, captured = snd ?X,
                  logged = lg, ret = Returns (Inl err)\<rparr>
             | (body, None, _) \<Rightarrow>
                 \<lparr>sent = Some (the_client c, the_req ct req0), delivered = fst ?X, captured = snd ?X,
                  logged = lg,
                  ret = Returns (Inl (status_error (StatusCode ?resp') body))\<rparr>))"
    unfolding lg by (simp split del: if_split)
  then have eq1: "request env c m u ct d =
          (if StatusCode resp \<ge> StatusOK \<and> StatusCode resp \<le> StatusIMUsed
          then \<lparr>sent = Some (the_client c, the_req ct req0), delivered = fst ?X, captured = snd ?X,
                logged = lg, ret = Returns (Inr ?resp')\<rparr>
          else
            (case ReadAll (RespBody ?resp') of
               (body, Some err, _) \<Rightarrow>
                 \<lparr>sent = Some (the_client c, the_req ct req0), delivered = fst ?X, captured = snd ?X,
                  logged = lg, ret = Returns (Inl err)\<rparr>
             | (body, None, _) \<Rightarrow>
                 \<lparr>sent = Some (the_client c, the_req ct req0), delivered = fst ?X, captured = snd ?X,
                  logged = lg,
                  ret = Returns (Inl (status_error (StatusCode resp) body))\<rparr>))"
    unfolding sc .
  have eq2: "(case ReadAll (RespBody ?resp') of
               (body, Some err, _) \<Rightarrow>
                 \<lparr>sent = Some (the_client c, the_req ct req0), delivered = fst ?X, captured = snd ?X,
                  logged = lg, ret = Returns (Inl err)\<rparr>
             | (body, None, _) \<Rightarrow>
                 \<lparr>sent = Some (the_client c, the_req ct req0), delivered = fst ?X, captured = snd ?X,
                  logged = lg,
                  ret = Returns (Inl (status_error (StatusCode resp) body))\<rparr>) =
      \<lparr>sent = Some (the_client c, the_req ct req0), delivered = fst ?X, captured = snd ?X,
         logged = lg,
         ret = (case ReadAll (RespBody ?resp') of
                  (body, Some err, rest) \<Rightarrow> Returns (Inl err)
                | (body, None, rest) \<Rightarrow> Returns (Inl (status_error (StatusCode resp) body)))\<rparr>"
    by (cases "ReadAll (RespBody ?resp')") (auto split: option.splits)
  show ?thesis unfolding eq1 eq2 by (rule exI[of _ lg]) (rule refl)
qed

lemma request_fields:
  assumes nr: "NewRequest env m u d = Inr req0"
  shows "sent (request env c m u ct d) = Some (the_client c, the_req ct req0)"
    and "delivered (request env c m u ct d) =
           fst (the_tee d (reads (client_Do env (the_client c) (the_req ct req0))))"
    and "captured (request env c m u ct d) =
           snd (the_tee d (reads (client_Do env (the_client c) (the_req ct req0))))"
proof -
  let ?thesis3 = "sent (request env c m u ct d) = Some (the_client c, the_req ct req0)
    \<and> delivered (request env c m u ct d) =
           fst (the_tee d (reads (client_Do env (the_client c) (the_req ct req0))))
    \<and> captured (request env c m u ct d) =
           snd (the_tee d (reads (client_Do env (the_client c) (the_req ct req0))))"
  have ?thesis3
  proof (cases "result (client_Do env (the_client c) (the_req ct req0))")
    case (Inl err)
    show ?thesis by (simp add: request_transport_error[OF nr Inl])
  next
    case (Inr resp)
    from request_response[OF nr Inr] obtain lg where "request env c m u ct d =
     (if StatusCode resp \<ge> StatusOK \<and> StatusCode resp \<le> StatusIMUsed
      then \<lparr>sent = Some (the_client c, the_req ct req0),
            delivered = fst (the_tee d (reads (client_Do env (the_client c) (the_req ct req0)))),
            captured = snd (the_tee d (reads (client_Do env (the_client c) (the_req ct req0)))),
            logged = lg,
            ret = Returns (Inr (if curl c \<or> curlHeader c then snd (DumpResponse env resp) else resp))\<rparr>
      else
        \<lparr>sent = Some (the_client c, the_req ct req0),
         delivered = fst (the_tee d (reads (client_Do env (the_client c) (the_req ct req0)))),
         captured = snd (the_tee d (reads (client_Do env (the_client c) (the_req ct req0)))),
         logged = lg,
         ret = (case ReadAll (RespBody (if curl c \<or> curlHeader c then snd (DumpResponse env resp) else resp)) of
                  (body, Some err, rest) \<Rightarrow> Returns (Inl err)
                | (body, None, rest) \<Rightarrow> Returns (Inl (status_error (StatusCode resp) body)))\<rparr>)" ..
    then show ?thesis by (simp split: if_splits)
  qed
  then show "sent (request env c m u ct d) = Some (the_client c, the_req ct req0)"
    and "delivered (request env c m u ct d) =
           fst (the_tee d (reads (client_Do env (the_client c) (the_req ct req0))))"
    and "captured (request env c m u ct d) =
           snd (the_tee d (reads (client_Do env (the_client c) (the_req ct req0))))"
    by simp_all
qed

lemma request_ret:
  assumes nr: "NewRequest env m u d = Inr req0"
    and res: "result (client_Do env (the_client c) (the_req ct req0)) = Inr resp"
  shows "ret (request env c m u ct d) =
     (if StatusCode resp \<ge> StatusOK \<and> StatusCode resp \<le> StatusIMUsed
      then Returns (Inr (if curl c \<or> curlHeader c then snd (DumpResponse env resp) else resp))
      else (case ReadAll (RespBody (if curl c \<or> curlHeader c then snd (DumpResponse env resp) else resp)) of
                  (body, Some err, rest) \<Rightarrow> Returns (Inl err)
                | (body, None, rest) \<Rightarrow> Returns (Inl (status_error (StatusCode resp) body))))"
  using request_response[OF nr res] by (auto split: if_splits)

text \<open>\<open>request\<close> never panics: the header it builds has a value for each name.\<close>

lemma request_Returns: "\<exists>r. ret (request env c m u ct d) = Returns r"
proof (cases "NewRequest env m u d")
  case (Inl err)
  then show ?thesis by (simp add: request_refused)
next
  case (Inr req0)
  show ?thesis
  proof (cases "result (client_Do env (the_client c) (the_req ct req0))")
    case (Inl err)
    show ?thesis by (simp add: request_transport_error[OF Inr Inl])
  next
    case (Inr resp)
    show ?thesis
      unfolding request_ret[OF \<open>NewRequest env m u d = Inr req0\<close> Inr]
      by (simp split: prod.splits option.splits)
  qed
qed

lemma sent_SomeD:
  assumes "sent (request env c m u ct d) = Some (cl, req)"
  shows "\<exists>req0. NewRequest env m u d = Inr req0 \<and> cl = the_client c \<and> req = the_req ct req0"
proof (cases "NewRequest env m u d")
  case (Inl err)
  with assms show ?thesis by (simp add: request_refused)
next
  case (Inr req0)
  with assms request_fields(1)[OF Inr, of c ct] show ?thesis by simp
qed

lemma logger_ends:
  assumes "logger env c r resp data = Returns (lg, resp')"
    and "curl c \<or> curlHeader c"
    and "fst (DumpResponse env resp) = Inr dump"
    and "SplitN_CRLFCRLF_2 dump = [header, body]"
    and "json_Indent env body [] ''   '' = (out, e)"
  shows "\<exists>pre. lg = [pre @ (case e of None \<Rightarrow> out | Some err \<Rightarrow> body) @ [NL]]"
proof -
  obtain d resp2 where dr: "DumpResponse env resp = (d, resp2)" by (cases "DumpResponse env resp")
  with assms(3) have d: "d = Inr dump" by simp
  show ?thesis
    using assms(1,2,4,5) dr d
    by (cases e) (auto simp: logger_def Let_def indentJSON_def
         split: if_splits completion.splits)
qed

lemma tee_reads_capture:
  "tee_reads (src, buf) ns = (p, (rest, buf')) \<Longrightarrow> buf' = buf @ p \<and> src = p @ rest"
proof (induction ns arbitrary: src buf p rest buf')
  case Nil
  then show ?case by simp
next
  case (Cons n ns)
  obtain ps st'' where r: "tee_reads (drop n src, buf @ take n src) ns = (ps, st'')"
    by (cases "tee_reads (drop n src, buf @ take n src) ns") auto
  obtain rest'' buf'' where st: "st'' = (rest'', buf'')" by (cases st'') auto
  from Cons.prems r st have p: "p = take n src @ ps" and eq: "rest = rest''" "buf' = buf''"
    by auto
  from Cons.IH[OF r[unfolded st]] have "buf'' = (buf @ take n src) @ ps" "drop n src = ps @ rest''"
    by auto
  with p eq show ?case
    by (metis append.assoc append_take_drop_id)
qed

lemma tee_reads_length:
  "tee_reads (src, buf) ns = (p, st) \<Longrightarrow> length p = min (length src) (sum_list ns)"
proof (induction ns arbitrary: src buf p st)
  case Nil
  then show ?case by simp
next
  case (Cons n ns)
  obtain ps st'' where r: "tee_reads (drop n src, buf @ take n src) ns = (ps, st'')"
    by (cases "tee_reads (drop n src, buf @ take n src) ns") auto
  from Cons.prems r have p: "p = take n src @ ps" by auto
  from Cons.IH[OF r] have "length ps = min (length src - n) (sum_list ns)" by simp
  with p show ?case by auto
qed

lemma the_tee_Some: "the_tee (Some d) ns = (take (sum_list ns) d, take (sum_list ns) d)"
proof -
  obtain p rest b where t: "tee_reads (d, []) ns = (p, (rest, b))"
    by (metis prod_cases3)
  from tee_reads_capture[OF t] have b: "b = p" and d: "d = p @ rest" by simp_all
  from tee_reads_length[OF t] have "length p = min (length d) (sum_list ns)" .
  moreover from d have "take (length p) d = p" by simp
  moreover have "take (min (length d) (sum_list ns)) d = take (sum_list ns) d"
    by (simp add: min_def)
  ultimately have "p = take (sum_list ns) d" by simp
  with t b show ?thesis by (simp add: the_tee_def)
qed

lemma the_tee_None: "the_tee None ns = ([], [])"
  by (simp add: the_tee_def)

lemma request_issued:
  assumes "url_Parse env url = Inr u" and "validMethod m"
  shows "sent (request env c m url ct d) =
           Some (the_client c,
                 \<lparr>Method = m, URL = u,
                  Header = (if ct = [] then [] else [(''Content-Type'', [ct])]), Body = d\<rparr>)"
proof -
  from assms have m: "m \<noteq> []" by (simp add: validMethod_def)
  with assms have nr: "NewRequest env m url d = Inr \<lparr>Method = m, URL = u, Header = [], Body = d\<rparr>"
    by (simp add: NewRequest_def)
  show ?thesis
    unfolding request_fields(1)[OF nr] by (simp add: the_req_def)
qed

lemma valid_methods:
  "validMethod MethodGet" "validMethod MethodHead" "validMethod MethodDelete" "validMethod MethodPost"
  by (simp_all add: validMethod_def isTokenByte_def MethodGet_def MethodHead_def
        MethodDelete_def MethodPost_def)

lemma replicate_4: "replicate 4 x = [x, x, x, x]"
  by (simp add: numeral_eq_Suc)

subsection \<open>Evaluating the examples\<close>

lemmas example_defs =
  example_env_def example_response_def example_json_def example_request_def
  response_200_def response_404_def response_500_def example_values_def
  New_def Curl_def CurlHeader_def SkipRedirects_def Second_def

lemmas logger_eval =
  logger_def DumpResponse_def bytes_NewReader_def SplitN_CRLFCRLF_2_def indentJSON_def Let_def

lemmas request_eval =
  request_def NewRequest_def validMethod_def isTokenByte_def the_client_def the_req_def
  status_error_def FormatInt_def digits.simps StatusOK_def StatusIMUsed_def
  Get_def Head_def Delete_def Post_def Put_def
  MethodGet_def MethodHead_def MethodDelete_def MethodPost_def URLEncodededContentType_def

lemma ex_sent_get:
  "sent (request (example_env r) c ''GET'' ''http://h/x'' [] None) = Some (the_client c, example_request)"
  using request_issued[of "example_env r" "''http://h/x''" "''http://h/x''" "''GET''" c "[]" None]
    valid_methods(1)
  by (simp add: example_defs MethodGet_def)

lemma logged_skipRedirects:
  "logged (Get (example_env response_404) (New [Curl True, SkipRedirects True]) ''http://h/x'')
     = [NL # ''curl -sS -L -XGET '' @ [BSL, NL] @ ''    '' @ [DQ] @ ''http://h/x'' @ [DQ, NL, NL]
          @ ''HTTP/1.1 404 Not Found'' @ [NL] @ ''not found'' @ [NL]]"
  by (simp add: request_eval logger_eval example_defs replicate_4)

lemma logged_followRedirects:
  "logged (Get (example_env response_404) (New [Curl True, SkipRedirects False]) ''http://h/x'')
     = [NL # ''curl -sS -XGET '' @ [BSL, NL] @ ''    '' @ [DQ] @ ''http://h/x'' @ [DQ, NL, NL]
          @ ''HTTP/1.1 404 Not Found'' @ [NL] @ ''not found'' @ [NL]]"
  by (simp add: request_eval logger_eval example_defs replicate_4)

subsection \<open>The claims\<close>

text \<open>\<^bold>\<open>C1\<close>: the header of the trace and the follow-redirects flag \<open>-L\<close>. On a GET that is
  answered with 404, traced under a configuration with \<open>skipRedirects\<close> true, the record that
  \<open>logger\<close> writes starts with \<open>curl -sS -L -XGET\<close>: the flag is there. Under the same
  configuration with \<open>skipRedirects\<close> false it starts with \<open>curl -sS -XGET\<close> and holds no
  \<open>-L\<close> anywhere. (Lemma \<open>logger_on\<close> gives the header for every traced request.)\<close>

theorem logger_follow_redirects_flag:
  "logged (Get (example_env response_404) (New [Curl True, SkipRedirects True]) ''http://h/x'')
     = [NL # ''curl -sS -L -XGET '' @ [BSL, NL] @ ''    '' @ [DQ] @ ''http://h/x'' @ [DQ, NL, NL]
          @ ''HTTP/1.1 404 Not Found'' @ [NL] @ ''not found'' @ [NL]]
   \<and> map (sublist '' -L'')
       (logged (Get (example_env response_404) (New [Curl True, SkipRedirects True]) ''http://h/x''))
     = [True]
   \<and> logged (Get (example_env response_404) (New [Curl True, SkipRedirects False]) ''http://h/x'')
     = [NL # ''curl -sS -XGET '' @ [BSL, NL] @ ''    '' @ [DQ] @ ''http://h/x'' @ [DQ, NL, NL]
          @ ''HTTP/1.1 404 Not Found'' @ [NL] @ ''not found'' @ [NL]]
   \<and> map (sublist '' -L'')
       (logged (Get (example_env response_404) (New [Curl True, SkipRedirects False]) ''http://h/x''))
     = [False]"
  unfolding logged_skipRedirects logged_followRedirects
  by (simp add: sublist_Cons_right)

text \<open>\<^bold>\<open>C2\<close>: \<open>Put\<close> is \<open>Post\<close>: on every URL and every form the two calls are the same call
  of \<open>request\<close>, so they hand the same request to the transport, log the same and return the
  same; the request that \<open>Put\<close> issues has the method POST, the form content type as its only
  header and the encoded form as its body.\<close>

theorem Put_same_as_Post:
  "Put env c url values = Post env c url values
   \<and> (\<forall>client req. sent (Put env c url values) = Some (client, req) \<longrightarrow>
         Method req = ''POST''
       \<and> Header req = [(''Content-Type'', [''application/x-www-form-urlencoded''])]
       \<and> Body req = Some (values_Encode env values))"
proof -
  have "\<And>client req. sent (Put env c url values) = Some (client, req) \<Longrightarrow>
         Method req = ''POST''
       \<and> Header req = [(''Content-Type'', [''application/x-www-form-urlencoded''])]
       \<and> Body req = Some (values_Encode env values)"
  proof -
    fix client req
    assume "sent (Put env c url values) = Some (client, req)"
    then have s: "sent (request env c MethodPost url URLEncodededContentType
                    (Some (values_Encode env values))) = Some (client, req)"
      by (simp add: Put_def)
    from sent_SomeD[OF s] obtain req0 where
      nr: "NewRequest env MethodPost url (Some (values_Encode env values)) = Inr req0"
      and rq: "req = the_req URLEncodededContentType req0"
      by blast
    from NewRequest_Inr[OF nr] rq
    show "Method req = ''POST''
       \<and> Header req = [(''Content-Type'', [''application/x-www-form-urlencoded''])]
       \<and> Body req = Some (values_Encode env values)"
      by (auto simp: the_req_def MethodPost_def URLEncodededContentType_def)
  qed
  moreover have "Put env c url values = Post env c url values"
    by (simp add: Put_def Post_def)
  ultimately show ?thesis by blast
qed

theorem Put_same_as_Post_witness:
  "Put (example_env response_200) (New []) ''http://h/x'' example_values
     = Post (example_env response_200) (New []) ''http://h/x'' example_values
   \<and> map_option (Method \<circ> snd)
        (sent (Put (example_env response_200) (New []) ''http://h/x'' example_values))
     = Some ''POST''"
proof -
  let ?E = "example_env response_200"
  let ?R = "\<lparr>Method = ''POST'', URL = ''http://h/x'',
             Header = [(''Content-Type'', [URLEncodededContentType])], Body = Some ''a=1&b=2''\<rparr>"
  have p: "sent (Put ?E (New []) ''http://h/x'' example_values) = Some (the_client (New []), ?R)"
    using request_issued[of ?E "''http://h/x''" "''http://h/x''" "''POST''" "New []"
        URLEncodededContentType "Some ''a=1&b=2''"] valid_methods(4)
    by (simp add: example_defs Put_def MethodPost_def URLEncodededContentType_def)
  from Put_same_as_Post[of ?E "New []" "''http://h/x''" example_values] p
  show ?thesis by simp
qed

text \<open>\<^bold>\<open>C3\<close>: \<open>IsSuccess\<close> is true exactly on the status codes from 200 to 226, both
  included: false at 199 and 227, true at 200 and 226.\<close>

theorem IsSuccess_range:
  "IsSuccess statusCode = (200 \<le> statusCode \<and> statusCode \<le> 226)
   \<and> \<not> IsSuccess 199 \<and> IsSuccess 200 \<and> IsSuccess 226 \<and> \<not> IsSuccess 227"
  by (simp add: IsSuccess_def StatusOK_def StatusIMUsed_def)

text \<open>\<^bold>\<open>C4\<close>: when the transport answers with a status code outside 200..226 and the response
  body reads to its end without an error, \<open>request\<close> returns no response and an error whose
  text is \<open>Error making HTTP request.  HTTP Status\<close>, the status code in decimal, a colon
  and the whole body; so the text contains the code and the body. This holds with and without
  tracing.\<close>

theorem request_status_error:
  assumes "sent (request env c method url contentType data) = Some (client, req)"
    and "result (client_Do env client req) = Inr resp"
    and "StatusCode resp < 200 \<or> 226 < StatusCode resp"
    and "ReadAll (RespBody resp) = (body, None, rest)"
  shows "\<exists>msg. ret (request env c method url contentType data) = Returns (Inl (Err msg))
           \<and> msg = ''Error making HTTP request.  HTTP Status '' @ FormatInt (StatusCode resp)
                     @ '': '' @ body
           \<and> sublist (FormatInt (StatusCode resp)) msg \<and> sublist body msg"
proof -
  from sent_SomeD[OF assms(1)] obtain req0 where
    nr: "NewRequest env method url data = Inr req0" and
    cl: "client = the_client c" and rq: "req = the_req contentType req0"
    by blast
  let ?resp' = "if curl c \<or> curlHeader c then snd (DumpResponse env resp) else resp"
  have "ReadAll (RespBody ?resp') = (body, None, if curl c \<or> curlHeader c then [] else rest)"
    using assms(4) by (simp add: DumpResponse_drained ReadAll_bytes_NewReader)
  with request_ret[OF nr assms(2)[unfolded cl rq]] assms(3)
  have "ret (request env c method url contentType data)
          = Returns (Inl (status_error (StatusCode resp) body))"
    by (auto simp: StatusOK_def StatusIMUsed_def)
  moreover have "sublist (FormatInt (StatusCode resp))
      (''Error making HTTP request.  HTTP Status '' @ FormatInt (StatusCode resp) @ '': '' @ body)"
    by (rule sublist_appendI)
  moreover have "sublist body
      ((''Error making HTTP request.  HTTP Status '' @ FormatInt (StatusCode resp) @ '': '') @ body)"
    by (rule sublist_append_leftI)
  ultimately show ?thesis
    unfolding status_error_def append_assoc by blast
qed

theorem request_status_error_witness:
  "ret (Get (example_env response_404) (New []) ''http://h/x'')
     = Returns (Inl (Err ''Error making HTTP request.  HTTP Status 404: not found''))
   \<and> ret (Get (example_env response_404) (New [CurlHeader True]) ''http://h/x'')
     = Returns (Inl (Err ''Error making HTTP request.  HTTP Status 404: not found''))"
proof -
  have h2: "result (client_Do (example_env response_404) (the_client c) example_request)
              = Inr response_404" for c
    by (simp add: example_defs)
  have h3: "StatusCode response_404 < 200 \<or> 226 < StatusCode response_404"
    by (simp add: example_defs)
  have h4: "ReadAll (RespBody response_404) = (''not found'', None, [])"
    by (simp add: example_defs)
  have f: "FormatInt (StatusCode response_404) = ''404''"
    by (simp add: example_defs FormatInt_def digits.simps)
  from request_status_error[OF ex_sent_get h2 h3 h4, of "New []"]
    request_status_error[OF ex_sent_get h2 h3 h4, of "New [CurlHeader True]"]
  show ?thesis
    by (simp add: Get_def MethodGet_def f)
qed

text \<open>\<^bold>\<open>C5\<close>: when \<open>request\<close> has a body, what the transport is handed is the body itself, as
  far as the transport reads: the first bytes of the source, unaltered; the capture buffer
  holds exactly what was handed over; and once the transport has asked for at least as many
  bytes as the body has, both are the whole body. With a nil body the capture buffer is
  empty.\<close>

theorem request_body_capture:
  assumes "sent (request env c method url contentType data) = Some (client, req)"
  shows "(\<forall>d. data = Some d \<longrightarrow>
            delivered (request env c method url contentType data)
              = take (sum_list (reads (client_Do env client req))) d
          \<and> captured (request env c method url contentType data)
              = delivered (request env c method url contentType data)
          \<and> (length d \<le> sum_list (reads (client_Do env client req)) \<longrightarrow>
               delivered (request env c method url contentType data) = d
             \<and> captured (request env c method url contentType data) = d))
       \<and> (data = None \<longrightarrow> captured (request env c method url contentType data) = [])"
proof -
  from sent_SomeD[OF assms] obtain req0 where
    nr: "NewRequest env method url data = Inr req0" and
    cl: "client = the_client c" and rq: "req = the_req contentType req0"
    by blast
  show ?thesis
    unfolding request_fields[OF nr] cl rq
    by (cases data) (simp_all add: the_tee_Some the_tee_None)
qed

theorem request_body_capture_witness:
  "delivered (Post (example_env response_200) (New []) ''http://h/x'' example_values) = ''a=1&b=2''
   \<and> captured (Post (example_env response_200) (New []) ''http://h/x'' example_values) = ''a=1&b=2''
   \<and> captured (Get (example_env response_200) (New []) ''http://h/x'') = []"
proof -
  let ?E = "example_env response_200"
  let ?R = "\<lparr>Method = ''POST'', URL = ''http://h/x'',
             Header = [(''Content-Type'', [URLEncodededContentType])], Body = Some ''a=1&b=2''\<rparr>"
  have p: "sent (request ?E (New []) ''POST'' ''http://h/x'' URLEncodededContentType (Some ''a=1&b=2''))
             = Some (the_client (New []), ?R)"
    using request_issued[of ?E "''http://h/x''" "''http://h/x''" "''POST''" "New []"
        URLEncodededContentType "Some ''a=1&b=2''"] valid_methods(4)
    by (simp add: example_defs MethodPost_def URLEncodededContentType_def)
  have r: "reads (client_Do ?E cl rq) = [4096, 4096]" for cl rq
    by (simp add: example_defs)
  from request_body_capture[OF p] request_body_capture[OF ex_sent_get, of response_200 "New []"]
  show ?thesis
    by (simp add: Post_def Get_def MethodPost_def MethodGet_def r example_env_def)
qed

text \<open>\<^bold>\<open>C6\<close>: if the URL parses, \<open>Post\<close> issues a request with the method POST, the one header
  \<open>Content-Type: application/x-www-form-urlencoded\<close> and the encoded form as its body;
  \<open>Get\<close>, \<open>Head\<close> and \<open>Delete\<close> issue a request with no header and no body; and every request
  that \<open>request\<close> issues has the \<open>Content-Type\<close> header exactly if the content type is not
  the empty string, and the body it was given.\<close>

theorem Post_form_request:
  assumes "url_Parse env url = Inr u"
  shows "map_option snd (sent (Post env c url values)) =
           Some \<lparr>Method = ''POST'', URL = u,
                 Header = [(''Content-Type'', [''application/x-www-form-urlencoded''])],
                 Body = Some (values_Encode env values)\<rparr>
       \<and> map_option snd (sent (Get env c url)) =
           Some \<lparr>Method = ''GET'', URL = u, Header = [], Body = None\<rparr>
       \<and> map_option snd (sent (Head env c url)) =
           Some \<lparr>Method = ''HEAD'', URL = u, Header = [], Body = None\<rparr>
       \<and> map_option snd (sent (Delete env c url)) =
           Some \<lparr>Method = ''DELETE'', URL = u, Header = [], Body = None\<rparr>
       \<and> (\<forall>m ct d client req.
             sent (request env c m url ct d) = Some (client, req) \<longrightarrow>
               Header req = (if ct = [] then [] else [(''Content-Type'', [ct])]) \<and> Body req = d)"
proof -
  have "\<And>m ct d client req. sent (request env c m url ct d) = Some (client, req) \<Longrightarrow>
      Header req = (if ct = [] then [] else [(''Content-Type'', [ct])]) \<and> Body req = d"
  proof -
    fix m ct d client req
    assume s: "sent (request env c m url ct d) = Some (client, req)"
    from sent_SomeD[OF s] obtain req0 where
      nr: "NewRequest env m url d = Inr req0" and rq: "req = the_req ct req0"
      by blast
    from NewRequest_Inr[OF nr] rq
    show "Header req = (if ct = [] then [] else [(''Content-Type'', [ct])]) \<and> Body req = d"
      by (auto simp: the_req_def)
  qed
  then show ?thesis
    using request_issued[OF assms valid_methods(1), of c "[]" None]
      request_issued[OF assms valid_methods(2), of c "[]" None]
      request_issued[OF assms valid_methods(3), of c "[]" None]
      request_issued[OF assms valid_methods(4), of c URLEncodededContentType
         "Some (values_Encode env values)"]
    by (simp add: Post_def Get_def Head_def Delete_def MethodGet_def MethodHead_def
        MethodDelete_def MethodPost_def URLEncodededContentType_def)
qed

theorem Post_form_request_witness:
  "map_option snd (sent (Post (example_env response_200) (New []) ''http://h/x'' example_values))
     = Some \<lparr>Method = ''POST'', URL = ''http://h/x'',
             Header = [(''Content-Type'', [''application/x-www-form-urlencoded''])],
             Body = Some ''a=1&b=2''\<rparr>
   \<and> map_option snd (sent (Get (example_env response_200) (New []) ''http://h/x''))
     = Some \<lparr>Method = ''GET'', URL = ''http://h/x'', Header = [], Body = None\<rparr>"
proof -
  have u: "url_Parse (example_env response_200) ''http://h/x'' = Inr ''http://h/x''"
    by (simp add: example_defs)
  from Post_form_request[OF u, of "New []" example_values]
  show ?thesis by (simp add: example_env_def)
qed

text \<open>\<^bold>\<open>C7\<close>: \<open>Unmarshal\<close> returns the read error as it is, and the target as it was, if
  reading the stream fails; if the stream reads to its end with bytes \<open>data\<close> and the decoder
  fails with a \<open>*json.SyntaxError\<close>, it returns a \<open>SyntaxError\<close> that holds that error (its
  offset with it) and \<open>data\<close>; for every other result of the decoder it returns that result
  unwrapped.\<close>

theorem Unmarshal_errors:
  "(ReadAll body = (data, Some err, rest) \<longrightarrow> Unmarshal dec body v = (Some err, v))
   \<and> (ReadAll body = (data, None, rest) \<and> dec data v = (Some (JSONSyntaxErr e), v') \<longrightarrow>
        Unmarshal dec body v = (Some (SyntaxErr \<lparr>embedded = e, input = data\<rparr>), v'))
   \<and> (ReadAll body = (data, None, rest) \<and> dec data v = (derr, v')
        \<and> (\<forall>e. derr \<noteq> Some (JSONSyntaxErr e)) \<longrightarrow>
        Unmarshal dec body v = (derr, v'))"
  by (auto simp: Unmarshal_def split: option.splits error.splits)

theorem Unmarshal_errors_witness:
  "Unmarshal example_decoder [Bytes ''{'', ReadErr (Err ''unexpected EOF'')] (7::nat)
     = (Some (Err ''unexpected EOF''), 7)
   \<and> Unmarshal example_decoder [Bytes ''{]''] (7::nat)
     = (Some (SyntaxErr \<lparr>embedded = \<lparr>msg = ''invalid character'', Offset = 2\<rparr>, input = ''{]''\<rparr>), 7)
   \<and> Unmarshal example_decoder [Bytes ''{}''] (7::nat)
     = (Some (JSONUnmarshalTypeErr ''cannot unmarshal object''), 7)"
proof -
  have r1: "ReadAll [Bytes ''{'', ReadErr (Err ''unexpected EOF'')]
              = (''{'', Some (Err ''unexpected EOF''), [])" by simp
  have r2: "ReadAll [Bytes ''{]''] = (''{]'', None, [])" by simp
  have r3: "ReadAll [Bytes ''{}''] = (''{}'', None, [])" by simp
  have d2: "example_decoder ''{]'' 7
              = (Some (JSONSyntaxErr \<lparr>msg = ''invalid character'', Offset = 2\<rparr>), 7)"
    by (simp add: example_decoder_def)
  have d3: "example_decoder ''{}'' 7 = (Some (JSONUnmarshalTypeErr ''cannot unmarshal object''), 7)"
    by (simp add: example_decoder_def)
  from Unmarshal_errors[of "[Bytes ''{'', ReadErr (Err ''unexpected EOF'')]" "''{''"
        "Err ''unexpected EOF''" "[]" example_decoder 7] r1
  have 1: "Unmarshal example_decoder [Bytes ''{'', ReadErr (Err ''unexpected EOF'')] (7::nat)
     = (Some (Err ''unexpected EOF''), 7)" by simp
  from Unmarshal_errors[of "[Bytes ''{]'']" "''{]''" _ "[]" example_decoder 7
        "\<lparr>msg = ''invalid character'', Offset = 2\<rparr>" 7] r2 d2
  have 2: "Unmarshal example_decoder [Bytes ''{]''] (7::nat)
     = (Some (SyntaxErr \<lparr>embedded = \<lparr>msg = ''invalid character'', Offset = 2\<rparr>, input = ''{]''\<rparr>), 7)"
    by simp
  from Unmarshal_errors[of "[Bytes ''{}'']" "''{}''" _ "[]" example_decoder 7 _ 7
        "Some (JSONUnmarshalTypeErr ''cannot unmarshal object'')"] r3 d3
  have 3: "Unmarshal example_decoder [Bytes ''{}''] (7::nat)
     = (Some (JSONUnmarshalTypeErr ''cannot unmarshal object''), 7)"
    by simp
  from 1 2 3 show ?thesis by simp
qed

text \<open>\<^bold>\<open>C8\<close>: for an offset \<open>k\<close> with \<open>1 \<le> k \<le> len(input)\<close>, \<open>SyntaxError.Error\<close> does not
  panic; its text is \<open>syntax error near:\<close>, a backquote, the input from byte \<open>k - 1\<close> on, and
  a backquote. So byte \<open>k - 1\<close> of the input is in the text: it is the byte at index 20, the
  first after the opening backquote.\<close>

theorem SyntaxError_Error_offset:
  assumes "1 \<le> k" and "k \<le> int (length inp)"
  shows "\<exists>m. SyntaxError_Error \<lparr>embedded = \<lparr>msg = t, Offset = k\<rparr>, input = inp\<rparr> = Returns m
           \<and> m = ''syntax error near: '' @ [BQ] @ drop (nat (k - 1)) inp @ [BQ]
           \<and> m ! 20 = inp ! nat (k - 1)
           \<and> sublist [inp ! nat (k - 1)] m"
proof -
  let ?i = "nat (k - 1)"
  from assms have i: "?i < length inp" by simp
  then have d: "drop ?i inp = inp ! ?i # drop (Suc ?i) inp"
    by (simp add: Cons_nth_drop_Suc)
  have r: "SyntaxError_Error \<lparr>embedded = \<lparr>msg = t, Offset = k\<rparr>, input = inp\<rparr>
          = Returns (''syntax error near: '' @ [BQ] @ drop ?i inp @ [BQ])"
    using assms by (simp add: SyntaxError_Error_def)
  have n: "(''syntax error near: '' @ [BQ] @ drop ?i inp @ [BQ]) ! 20 = inp ! ?i"
    by (simp add: d)
  have "sublist [inp ! ?i] ((''syntax error near: '' @ [BQ]) @ [inp ! ?i] @ (drop (Suc ?i) inp @ [BQ]))"
    by (rule sublist_appendI)
  then have s: "sublist [inp ! ?i] (''syntax error near: '' @ [BQ] @ drop ?i inp @ [BQ])"
    by (simp add: d)
  from r n s show ?thesis by blast
qed

theorem SyntaxError_Error_offset_witness:
  "(1::int) \<le> 2 \<and> 2 \<le> int (length ''{]'')
   \<and> SyntaxError_Error \<lparr>embedded = \<lparr>msg = ''invalid character'', Offset = 2\<rparr>, input = ''{]''\<rparr>
       = Returns (''syntax error near: '' @ [BQ] @ '']'' @ [BQ])"
proof -
  have h1: "(1::int) \<le> 2" by simp
  have h2: "(2::int) \<le> int (length ''{]'')" by simp
  from SyntaxError_Error_offset[OF h1 h2, of "''invalid character''"] h1 h2
  show ?thesis by simp
qed

text \<open>\<^bold>\<open>C9\<close>: when the dump of a traced response splits into a header block and a body
  block, the one record that the trace logs ends with the body block as \<open>json.Indent\<close>
  rewrites it with an empty prefix and an indent of three spaces, if \<open>json.Indent\<close> accepts
  the block (it is valid JSON), and with the body block itself, unchanged, if it does not;
  a newline follows in both cases. So the record contains the one or the other.\<close>

theorem logger_body_block:
  assumes "logger env c r resp data = Returns (lg, resp')"
    and "curl c \<or> curlHeader c"
    and "fst (DumpResponse env resp) = Inr dump"
    and "SplitN_CRLFCRLF_2 dump = [header, body]"
  shows "\<exists>rec. lg = [rec] \<and>
           (case json_Indent env body [] ''   '' of
              (out, None) \<Rightarrow> suffix (out @ [NL]) rec \<and> sublist out rec
            | (out, Some err) \<Rightarrow> suffix (body @ [NL]) rec \<and> sublist body rec)"
proof -
  obtain out e where ind: "json_Indent env body [] ''   '' = (out, e)"
    by (cases "json_Indent env body [] ''   ''")
  from logger_ends[OF assms ind] obtain pre where
    lg: "lg = [pre @ (case e of None \<Rightarrow> out | Some err \<Rightarrow> body) @ [NL]]" ..
  show ?thesis
    unfolding lg ind by (cases e) (simp_all add: suffix_def)
qed

theorem logger_body_block_witness:
  "(\<exists>lg resp' rec.
      logger (example_env response_200) (New [Curl True]) example_request response_200 []
        = Returns (lg, resp')
      \<and> lg = [rec]
      \<and> suffix (''{'' @ [NL] @ ''   '' @ [DQ] @ ''x'' @ [DQ] @ '': 1'' @ [NL] @ ''}'' @ [NL]) rec)
   \<and> (\<exists>lg resp' rec.
      logger (example_env response_404) (New [Curl True]) example_request response_404 []
        = Returns (lg, resp')
      \<and> lg = [rec] \<and> suffix (''not found'' @ [NL]) rec)"
proof -
  let ?C = "New [Curl True]"
  obtain lg1 resp1 where
    l1: "logger (example_env response_200) ?C example_request response_200 [] = Returns (lg1, resp1)"
    by (simp add: logger_eval example_defs)
  obtain lg2 resp2 where
    l2: "logger (example_env response_404) ?C example_request response_404 [] = Returns (lg2, resp2)"
    by (simp add: logger_eval example_defs)
  have c: "curl ?C \<or> curlHeader ?C"
    by (simp add: example_defs)
  have d1: "fst (DumpResponse (example_env response_200) response_200)
              = Inr (''HTTP/1.1 200 OK'' @ [CR, NL, CR, NL] @ example_json)"
    by (simp add: logger_eval example_defs)
  have d2: "fst (DumpResponse (example_env response_404) response_404)
              = Inr (''HTTP/1.1 404 Not Found'' @ [CR, NL, CR, NL] @ ''not found'')"
    by (simp add: logger_eval example_defs)
  have s1: "SplitN_CRLFCRLF_2 (''HTTP/1.1 200 OK'' @ [CR, NL, CR, NL] @ example_json)
              = [''HTTP/1.1 200 OK'', example_json]"
    by (simp add: logger_eval example_defs)
  have s2: "SplitN_CRLFCRLF_2 (''HTTP/1.1 404 Not Found'' @ [CR, NL, CR, NL] @ ''not found'')
              = [''HTTP/1.1 404 Not Found'', ''not found'']"
    by (simp add: logger_eval example_defs)
  from logger_body_block[OF l1 c d1 s1] obtain rec1 where r1: "lg1 = [rec1]"
    "suffix (''{'' @ [NL] @ ''   '' @ [DQ] @ ''x'' @ [DQ] @ '': 1'' @ [NL] @ ''}'' @ [NL]) rec1"
    by (auto simp: example_defs)
  from logger_body_block[OF l2 c d2 s2] obtain rec2 where r2: "lg2 = [rec2]"
    "suffix (''not found'' @ [NL]) rec2"
    by (auto simp: example_defs)
  from l1 l2 r1 r2 show ?thesis by blast
qed

text \<open>\<^bold>\<open>C10\<close>: on the path of a status code outside 200..226, if reading the response body
  fails (the body as \<open>request\<close> finds it: after the dump of the trace, if tracing is on),
  \<open>request\<close> returns no response and the read error itself, not an error with the status
  code.\<close>

theorem request_body_read_error:
  assumes "sent (request env c method url contentType data) = Some (client, req)"
    and "result (client_Do env client req) = Inr resp"
    and "StatusCode resp < 200 \<or> 226 < StatusCode resp"
    and "ReadAll (RespBody (if curl c \<or> curlHeader c then snd (DumpResponse env resp) else resp))
           = (b, Some err, rest)"
  shows "ret (request env c method url contentType data) = Returns (Inl err)"
proof -
  from sent_SomeD[OF assms(1)] obtain req0 where
    nr: "NewRequest env method url data = Inr req0" and
    cl: "client = the_client c" and rq: "req = the_req contentType req0"
    by blast
  from request_ret[OF nr assms(2)[unfolded cl rq]] assms(3,4)
  show ?thesis
    by (auto simp: StatusOK_def StatusIMUsed_def)
qed

theorem request_body_read_error_witness:
  "ret (Get (example_env response_500) (New []) ''http://h/x'')
     = Returns (Inl (Err ''unexpected EOF''))
   \<and> ret (Get (example_env response_500) (New [Curl True]) ''http://h/x'')
     = Returns (Inl (Err ''unexpected EOF''))"
proof -
  have h2: "result (client_Do (example_env response_500) (the_client c) example_request)
              = Inr response_500" for c
    by (simp add: example_defs response_500_def)
  have h3: "StatusCode response_500 < 200 \<or> 226 < StatusCode response_500"
    by (simp add: example_defs response_500_def)
  have h4: "ReadAll (RespBody (if curl (New []) \<or> curlHeader (New [])
                then snd (DumpResponse (example_env response_500) response_500) else response_500))
            = (''par'', Some (Err ''unexpected EOF''), [ReadErr (Err ''unexpected EOF'')])"
    by (simp add: example_defs response_500_def)
  have h5: "ReadAll (RespBody (if curl (New [Curl True]) \<or> curlHeader (New [Curl True])
                then snd (DumpResponse (example_env response_500) response_500) else response_500))
            = ([], Some (Err ''unexpected EOF''), [])"
    by (simp add: example_defs response_500_def DumpResponse_def)
  from request_body_read_error[OF ex_sent_get h2 h3 h4]
    request_body_read_error[OF ex_sent_get h2 h3 h5]
  show ?thesis
    by (simp add: Get_def MethodGet_def)
qed

end
